theory Spec2Isabelle
  imports Complex_Main
begin

section \<open>Numbers, constants and dates\<close>

text \<open>
  The program is JavaScript on top of three.js. A JavaScript Number is modelled as a
  \<^typ>\<open>real\<close>, so arithmetic and the functions of \<open>Math\<close> are exact: rounding of
  IEEE doubles is outside this model, and \<open>Math.PI\<close> is \<^term>\<open>pi\<close>.

  \<open>src/main.js\<close> holds two programs one after the other: the orthographic variant
  (lines 1 to 292, zoom and scene tilt) and the perspective variant (lines 293 to 539,
  camera tilt). \<open>src/unnamed/part_000\<close> is a third, earlier variant. Functions of the
  second and third carry the suffixes \<open>_B\<close> and \<open>_C\<close>, since the variants reuse names.
\<close>

definition PI :: real where
  "PI = pi"

definition GMTOffset :: real where
  "GMTOffset = - PI"

definition RadPerMinute :: real where
  "RadPerMinute = 2 * PI / 1440"

definition SunlightDistance :: real where
  "SunlightDistance = 5"

definition DefaultCameraDistance :: real where
  "DefaultCameraDistance = 15 / 10"

definition CameraDistance :: real where
  "CameraDistance = 22 / 10"

subsection \<open>The Date object\<close>

text \<open>
  A \<open>Date\<close> is its time value: the milliseconds since 1970-01-01T00:00Z, an integer.
  The accessors follow ECMA-262 (Day, DayFromYear, TimeFromYear, YearFromTime,
  HourFromTime, MinFromTime, LocalTime, UTC). The local time zone adjustment is the
  host's: \<open>tza t isUTC\<close> is LocalTZA(t, isUTC) of ECMA-262, the offset in milliseconds
  (local minus UTC) in force at \<open>t\<close>, where \<open>t\<close> is a UTC time value when \<open>isUTC\<close> holds
  and a local one otherwise. It changes with daylight saving time and with the rules of
  the zone, so it is a function and a parameter of every function that reads local
  time. \<open>TimeClip\<close> (the limit of 8.64e15 ms on either side of the epoch) is written as
  the predicate \<open>validTime\<close>.
\<close>

type_synonym zone = "int \<Rightarrow> bool \<Rightarrow> int"

definition msPerDay :: int where
  "msPerDay = 1000 * 60 * 60 * 24"


definition Day :: "int \<Rightarrow> int" where
  "Day t = t div msPerDay"

definition DayFromYear :: "int \<Rightarrow> int" where
  "DayFromYear y =
     365 * (y - 1970) + (y - 1969) div 4 - (y - 1901) div 100 + (y - 1601) div 400"

definition TimeFromYear :: "int \<Rightarrow> int" where
  "TimeFromYear y = msPerDay * DayFromYear y"

text \<open>
  ECMA-262 defines YearFromTime(t) as the largest \<open>y\<close> with TimeFromYear(y) \<open>\<le>\<close> t. The
  definition below computes it: an estimate from the mean length of the Gregorian year
  (146097 days in 400 years), corrected by at most one year either way. Lemmas
  \<open>YearFromTime_bounds\<close> and \<open>YearFromTime_largest\<close> show that it is that year.
\<close>

definition YearFromTime :: "int \<Rightarrow> int" where
  "YearFromTime t =
     (let d = Day t; y = 1970 + (400 * d) div 146097
      in if d < DayFromYear y then y - 1
         else if DayFromYear (y + 1) \<le> d then y + 1
         else y)"

definition HourFromTime :: "int \<Rightarrow> int" where
  "HourFromTime t = (t div 3600000) mod 24"

definition MinFromTime :: "int \<Rightarrow> int" where
  "MinFromTime t = (t div 60000) mod 60"

definition getUTCHours :: "int \<Rightarrow> int" where
  "getUTCHours t = HourFromTime t"

definition getUTCMinutes :: "int \<Rightarrow> int" where
  "getUTCMinutes t = MinFromTime t"

definition LocalTime :: "zone \<Rightarrow> int \<Rightarrow> int" where
  "LocalTime tza t = t + tza t True"

definition getFullYear :: "zone \<Rightarrow> int \<Rightarrow> int" where
  "getFullYear tza t = YearFromTime (LocalTime tza t)"

section \<open>Scene state\<close>

text \<open>
  The module-level variables and the fields of the three.js objects that the handlers
  read or write, as one record. \<open>camera.lookAt(p)\<close> points the camera at \<open>p\<close>: it is
  recorded as the target, and \<open>camera_roll\<close> is what has been added to
  \<open>camera.rotation.z\<close> since the last \<open>lookAt\<close> (a roll about the viewing axis).
\<close>

type_synonym vec3 = "real \<times> real \<times> real"

record angle =
  theta :: real
  phi :: real

record scene =
  cameraDistance :: real
  cameraTheta :: real
  cameraPhi :: real
  cameraTilt :: real
  cameraDist :: real
  sphericalCameraAngle :: angle
  isDragging :: bool
  dragStartX :: real
  dragStartY :: real
  aspect :: real
  camera_position :: vec3
  camera_target :: vec3
  camera_roll :: real
  camera_left :: real
  camera_right :: real
  camera_top :: real
  camera_bottom :: real
  root_rotation_x :: real
  earth_rotation_y :: real
  light_position :: vec3
  noonMarker_visible :: bool
  midnightMarker_visible :: bool
  pole_visible :: bool

definition earth_position :: vec3 where
  "earth_position = (0, 0, 0)"

definition lookAt :: "vec3 \<Rightarrow> scene \<Rightarrow> scene" where
  "lookAt p s = s\<lparr>camera_target := p, camera_roll := 0\<rparr>"

section \<open>Animation: the rotation of the Earth\<close>

text \<open>\<open>updateEarthRotation\<close> (main.js 262 to 266 and 502 to 507) and \<open>updateRotationY\<close>
  (part\_000 136 to 141); \<open>now\<close> is the value of \<open>new Date()\<close>.\<close>

definition UTCMinutes :: "int \<Rightarrow> int" where
  "UTCMinutes now = getUTCHours now * 60 + getUTCMinutes now"

definition updateEarthRotation :: "int \<Rightarrow> scene \<Rightarrow> scene" where
  "updateEarthRotation now s =
     s\<lparr>earth_rotation_y := real_of_int (UTCMinutes now) * RadPerMinute + GMTOffset - PI / 2\<rparr>"

definition updateRotationY :: "int \<Rightarrow> scene \<Rightarrow> scene" where
  "updateRotationY now s =
     s\<lparr>earth_rotation_y := real_of_int (UTCMinutes now) * RadPerMinute + GMTOffset - PI / 2\<rparr>"

definition congruent_2pi :: "real \<Rightarrow> real \<Rightarrow> bool" where
  "congruent_2pi a b = (\<exists>k::int. a = b + 2 * pi * real_of_int k)"

section \<open>Utils: the angle of the sunlight\<close>

text \<open>
  \<open>new Date(year, 0, date)\<close> after ECMA-262: a year from 0 to 99 stands for 1900 + year
  (MakeFullYear), MakeDay(yr, 0, date) is the day number of the first of January of \<open>yr\<close>
  plus \<open>date - 1\<close>, and the local time is converted to UTC with the offset in force at
  that local time. With \<open>date = 0\<close> the result is local midnight of the last day of the
  year before \<open>yr\<close>.
\<close>

definition MakeFullYear :: "int \<Rightarrow> int" where
  "MakeFullYear y = (if 0 \<le> y \<and> y \<le> 99 then 1900 + y else y)"

definition UTC :: "zone \<Rightarrow> int \<Rightarrow> int" where
  "UTC tza t = t - tza t False"

definition newDate :: "zone \<Rightarrow> int \<Rightarrow> int \<Rightarrow> int" where
  "newDate tza year date = UTC tza (msPerDay * (DayFromYear (MakeFullYear year) + date - 1))"

text \<open>\<open>getSunlightAngle\<close> (main.js 22 to 26), with its two local constants.\<close>

definition startOfYear :: "zone \<Rightarrow> int \<Rightarrow> int" where
  "startOfYear tza time = newDate tza (getFullYear tza time) 0"

definition dayOfYear :: "zone \<Rightarrow> int \<Rightarrow> int" where
  "dayOfYear tza time =
     \<lfloor>real_of_int (time - startOfYear tza time) / real_of_int (1000 * 60 * 60 * 24)\<rfloor>"

text \<open>The value \<open>getSunlightAngle\<close> returns, as a function of its local constant
  \<open>dayOfYear\<close>. The argument of \<open>Math.asin\<close> is between -0.398 and 0.398, where
  \<open>Math.asin\<close> is the inverse sine.\<close>

definition sunlightAngleOfDay :: "int \<Rightarrow> real" where
  "sunlightAngleOfDay d = arcsin (0.398 * cos (2 * PI * (real_of_int d - 173) / 365.242))"

definition getSunlightAngle :: "zone \<Rightarrow> int \<Rightarrow> real" where
  "getSunlightAngle tza time = sunlightAngleOfDay (dayOfYear tza time)"

text \<open>\<open>updateSunlightAngle\<close> of the orthographic variant (main.js 270 to 273).\<close>

definition updateSunlightAngle :: "zone \<Rightarrow> int \<Rightarrow> scene \<Rightarrow> scene" where
  "updateSunlightAngle tza now s =
     (let sunlightAngle = getSunlightAngle tza now
      in s\<lparr>light_position := (0, SunlightDistance * tan sunlightAngle, SunlightDistance)\<rparr>)"

text \<open>\<open>updateSunlightAngle\<close> of the perspective variant (main.js 511 to 520) and
  \<open>updateRotationX\<close> (part\_000 145 to 154), which skip the inverse sine.\<close>

definition sunlightAngleSINE :: "int \<Rightarrow> real" where
  "sunlightAngleSINE d = 0.398 * cos (2 * pi * (real_of_int d - 173) / 365.242)"

definition sunlightAngleTANGENT :: "int \<Rightarrow> real" where
  "sunlightAngleTANGENT d =
     sunlightAngleSINE d / sqrt (1 - sunlightAngleSINE d * sunlightAngleSINE d)"

definition updateSunlightAngle_B :: "zone \<Rightarrow> int \<Rightarrow> scene \<Rightarrow> scene" where
  "updateSunlightAngle_B tza today s =
     s\<lparr>light_position :=
        (0, SunlightDistance * sunlightAngleTANGENT (dayOfYear tza today), SunlightDistance)\<rparr>"

definition updateRotationX :: "zone \<Rightarrow> int \<Rightarrow> scene \<Rightarrow> scene" where
  "updateRotationX tza today s =
     s\<lparr>light_position :=
        (0, SunlightDistance * sunlightAngleTANGENT (dayOfYear tza today), SunlightDistance)\<rparr>"

text \<open>The start of the year as the specification words it: midnight of the first of
  January of the year of \<open>time\<close>, local time. It is not what the code computes; it is
  here to be compared with \<open>startOfYear\<close>.\<close>

definition spec_startOfYear :: "zone \<Rightarrow> int \<Rightarrow> int" where
  "spec_startOfYear tza time = UTC tza (TimeFromYear (getFullYear tza time))"

definition spec_dayOfYear :: "zone \<Rightarrow> int \<Rightarrow> int" where
  "spec_dayOfYear tza time =
     \<lfloor>real_of_int (time - spec_startOfYear tza time) / real_of_int 86400000\<rfloor>"

section \<open>Control and interaction: the orthographic variant\<close>

text \<open>\<open>moveSphericCamera\<close> (main.js 106 to 122).\<close>

definition moveSphericCamera :: "real \<Rightarrow> real \<Rightarrow> scene \<Rightarrow> scene" where
  "moveSphericCamera deltaX deltaY s =
     (let th = cameraTheta s + deltaX * 0.01;
          ph = max (min (cameraPhi s - deltaY * 0.01) PI) 0.001;
          x = cameraDistance s * sin ph * cos th;
          z = cameraDistance s * sin ph * sin th;
          y = cameraDistance s * cos ph
      in lookAt earth_position
           (s\<lparr>cameraTheta := th, cameraPhi := ph, camera_position := (x, y, z)\<rparr>))"

text \<open>\<open>resetCamera\<close> (main.js 124 to 130).\<close>

definition resetCamera :: "scene \<Rightarrow> scene" where
  "resetCamera s =
     (let s1 = s\<lparr>cameraDistance := DefaultCameraDistance\<rparr>;
          s2 = s1\<lparr>camera_position := (0, 0, cameraDistance s1)\<rparr>;
          s3 = lookAt earth_position s2
      in s3\<lparr>cameraTheta := PI / 2, cameraPhi := PI / 2\<rparr>)"

definition tiltScene :: "real \<Rightarrow> scene \<Rightarrow> scene" where
  "tiltScene deltaZ s =
     (let tilt = root_rotation_x s + deltaZ * 0.01
      in s\<lparr>root_rotation_x := max (min tilt (PI / 2)) (- PI / 2)\<rparr>)"

text \<open>A mouse or touch event is its \<open>(clientX, clientY)\<close>.\<close>

definition handleMouseDown :: "real \<times> real \<Rightarrow> scene \<Rightarrow> scene" where
  "handleMouseDown event s =
     s\<lparr>isDragging := True, dragStartX := fst event, dragStartY := snd event\<rparr>"

definition handleMouseUp :: "scene \<Rightarrow> scene" where
  "handleMouseUp s = s\<lparr>isDragging := False\<rparr>"

definition handleMouseMove :: "real \<times> real \<Rightarrow> scene \<Rightarrow> scene" where
  "handleMouseMove event s =
     (if \<not> isDragging s then s
      else let deltaX = fst event - dragStartX s;
               deltaY = snd event - dragStartY s
           in moveSphericCamera deltaX deltaY
                (s\<lparr>dragStartX := fst event, dragStartY := snd event\<rparr>))"

text \<open>\<open>handleResize\<close> (main.js 177 to 185): the field \<open>aspect\<close> is the ratio of the window
  at that moment.\<close>

definition handleResize :: "scene \<Rightarrow> scene" where
  "handleResize s =
     s\<lparr>camera_left := - cameraDistance s * aspect s,
       camera_right := cameraDistance s * aspect s,
       camera_top := cameraDistance s,
       camera_bottom := - cameraDistance s\<rparr>"

text \<open>\<open>handleKeyDown\<close> (main.js 187 to 220); the event is its \<open>key\<close>.\<close>

definition handleKeyDown :: "string \<Rightarrow> scene \<Rightarrow> scene" where
  "handleKeyDown key s =
     (if key = ''q'' \<or> key = ''Q'' then tiltScene (- 1) s
      else if key = ''e'' \<or> key = ''E'' then tiltScene 1 s
      else if key = ''w'' \<or> key = ''W'' \<or> key = ''ArrowUp'' then moveSphericCamera 0 1 s
      else if key = ''s'' \<or> key = ''S'' \<or> key = ''ArrowDown'' then moveSphericCamera 0 (- 1) s
      else if key = ''a'' \<or> key = ''A'' \<or> key = ''ArrowLeft'' then moveSphericCamera 1 0 s
      else if key = ''d'' \<or> key = ''D'' \<or> key = ''ArrowRight'' then moveSphericCamera (- 1) 0 s
      else if key = ''z'' \<or> key = ''Z'' then
        handleResize (s\<lparr>cameraDistance := min (cameraDistance s * 1.1) 10\<rparr>)
      else if key = ''c'' \<or> key = ''C'' then
        handleResize (s\<lparr>cameraDistance := max (cameraDistance s * 0.9) 1\<rparr>)
      else s)"

text \<open>\<open>handleKeyUp\<close> (main.js 222 to 244); \<open>now\<close> is \<open>new Date()\<close>.\<close>

definition handleKeyUp :: "zone \<Rightarrow> int \<Rightarrow> string \<Rightarrow> scene \<Rightarrow> scene" where
  "handleKeyUp tza now key s =
     (if key = ''r'' \<or> key = ''R'' then handleResize (resetCamera s)
      else if key = ''f'' \<or> key = ''F'' then s\<lparr>root_rotation_x := 0\<rparr>
      else if key = ''v'' \<or> key = ''V'' then s\<lparr>root_rotation_x := getSunlightAngle tza now\<rparr>
      else if key = ''t'' \<or> key = ''T'' then
        s\<lparr>noonMarker_visible := \<not> noonMarker_visible s,
          midnightMarker_visible := \<not> midnightMarker_visible s\<rparr>
      else if key = ''g'' \<or> key = ''G'' then s\<lparr>pole_visible := \<not> pole_visible s\<rparr>
      else s)"

section \<open>Control and interaction: the perspective variant\<close>

text \<open>\<open>moveSphericCamera\<close> (main.js 374 to 395).\<close>

definition moveSphericCamera_B :: "real \<Rightarrow> real \<Rightarrow> scene \<Rightarrow> scene" where
  "moveSphericCamera_B deltaX deltaY s =
     (let deltaXRotated = deltaX * cos (- cameraTilt s) - deltaY * sin (- cameraTilt s);
          deltaYRotated = deltaX * sin (- cameraTilt s) + deltaY * cos (- cameraTilt s);
          th = cameraTheta s + deltaXRotated * 0.01;
          ph = max (min (cameraPhi s - deltaYRotated * 0.01) pi) 0.001;
          x = CameraDistance * sin ph * cos th;
          z = CameraDistance * sin ph * sin th;
          y = CameraDistance * cos ph;
          s1 = lookAt earth_position
                 (s\<lparr>cameraTheta := th, cameraPhi := ph, camera_position := (x, y, z)\<rparr>)
      in s1\<lparr>camera_roll := camera_roll s1 + cameraTilt s1\<rparr>)"

text \<open>\<open>resetCamera\<close> (main.js 397 to 403).\<close>

definition resetCamera_B :: "scene \<Rightarrow> scene" where
  "resetCamera_B s =
     (let s1 = lookAt earth_position (s\<lparr>camera_position := (0, 0, CameraDistance)\<rparr>)
      in s1\<lparr>cameraTilt := 0, cameraTheta := pi / 2, cameraPhi := pi / 2\<rparr>)"

text \<open>\<open>tiltCamera\<close> (main.js 405 to 410).\<close>

definition tiltCamera :: "real \<Rightarrow> scene \<Rightarrow> scene" where
  "tiltCamera deltaZ s =
     (let s1 = s\<lparr>camera_roll := camera_roll s - cameraTilt s\<rparr>;
          s2 = s1\<lparr>cameraTilt := cameraTilt s1 + deltaZ * 0.05\<rparr>;
          s3 = s2\<lparr>cameraTilt := max (min (cameraTilt s2) (pi / 2)) (- pi / 2)\<rparr>
      in s3\<lparr>camera_roll := camera_roll s3 + cameraTilt s3\<rparr>)"

definition handleMouseMove_B :: "real \<times> real \<Rightarrow> scene \<Rightarrow> scene" where
  "handleMouseMove_B event s =
     (if \<not> isDragging s then s
      else let deltaX = fst event - dragStartX s;
               deltaY = snd event - dragStartY s
           in moveSphericCamera_B deltaX deltaY
                (s\<lparr>dragStartX := fst event, dragStartY := snd event\<rparr>))"

text \<open>\<open>handleKeyDown\<close> (main.js 433 to 464).\<close>

definition handleKeyDown_B :: "string \<Rightarrow> scene \<Rightarrow> scene" where
  "handleKeyDown_B key s =
     (if key = ''q'' \<or> key = ''Q'' then tiltCamera (- 1) s
      else if key = ''e'' \<or> key = ''E'' then tiltCamera 1 s
      else if key = ''w'' \<or> key = ''W'' then moveSphericCamera_B 0 1 s
      else if key = ''s'' \<or> key = ''S'' then moveSphericCamera_B 0 (- 1) s
      else if key = ''a'' \<or> key = ''A'' then moveSphericCamera_B 1 0 s
      else if key = ''d'' \<or> key = ''D'' then moveSphericCamera_B (- 1) 0 s
      else if key = ''f'' \<or> key = ''F'' then
        (s\<lparr>camera_roll := camera_roll s - cameraTilt s\<rparr>)\<lparr>cameraTilt := 0\<rparr>
      else if key = ''r'' \<or> key = ''R'' then resetCamera_B s
      else s)"

section \<open>Control and interaction: the first variant\<close>

text \<open>\<open>handleMouseMove\<close> (part\_000 92 to 119).\<close>

definition handleMouseMove_C :: "real \<times> real \<Rightarrow> scene \<Rightarrow> scene" where
  "handleMouseMove_C event s =
     (if \<not> isDragging s then s
      else let deltaX = fst event - dragStartX s;
               deltaY = snd event - dragStartY s;
               s1 = s\<lparr>dragStartX := fst event, dragStartY := snd event\<rparr>;
               th = theta (sphericalCameraAngle s1) + deltaX * 0.01;
               ph = max (min (phi (sphericalCameraAngle s1) - deltaY * 0.01) (pi - 0.1)) 0.1;
               x = cameraDist s1 * sin ph * cos th;
               z = cameraDist s1 * sin ph * sin th;
               y = cameraDist s1 * cos ph
           in lookAt earth_position
                (s1\<lparr>sphericalCameraAngle := \<lparr>theta = th, phi = ph\<rparr>,
                    camera_position := (x, y, z)\<rparr>))"

text \<open>The Euclidean distance of a point from the centre of the planet.\<close>

definition distanceToOrigin :: "vec3 \<Rightarrow> real" where
  "distanceToOrigin p = (case p of (x, y, z) \<Rightarrow> sqrt (x * x + y * y + z * z))"

section \<open>Time zones\<close>

text \<open>Two hosts. A zone with one offset at all times, and Asia/Almaty, which was at
  UTC+6 until local midnight of 2024-03-01 (2024-02-29T18:00Z) and is at UTC+5 since.\<close>

definition fixedOffset :: "int \<Rightarrow> zone" where
  "fixedOffset off = (\<lambda>t isUTC. off)"


section \<open>Initial states\<close>

text \<open>The values the module-level code gives before any event; \<open>a\<close> is
  \<open>window.innerWidth / window.innerHeight\<close>. Fields a variant does not have are 0, and
  so are \<open>dragStartX\<close> and \<open>dragStartY\<close>, which the source leaves undefined until the first
  mouse-down (they are not read before it). In the perspective variant the markers are
  visible unless a checkbox of the page hides them.\<close>

definition initial :: "real \<Rightarrow> scene" where
  "initial a =
     \<lparr>cameraDistance = DefaultCameraDistance, cameraTheta = PI / 2, cameraPhi = PI / 2,
      cameraTilt = 0, cameraDist = 0, sphericalCameraAngle = \<lparr>theta = 0, phi = 0\<rparr>,
      isDragging = False, dragStartX = 0, dragStartY = 0, aspect = a,
      camera_position = (0, 0, DefaultCameraDistance), camera_target = earth_position,
      camera_roll = 0,
      camera_left = - DefaultCameraDistance * a, camera_right = DefaultCameraDistance * a,
      camera_top = DefaultCameraDistance, camera_bottom = - DefaultCameraDistance,
      root_rotation_x = 0, earth_rotation_y = 0, light_position = (0, 0, SunlightDistance),
      noonMarker_visible = False, midnightMarker_visible = False, pole_visible = False\<rparr>"

definition initial_B :: "real \<Rightarrow> scene" where
  "initial_B a =
     \<lparr>cameraDistance = 0, cameraTheta = PI / 2, cameraPhi = PI / 2,
      cameraTilt = 0, cameraDist = 0, sphericalCameraAngle = \<lparr>theta = 0, phi = 0\<rparr>,
      isDragging = False, dragStartX = 0, dragStartY = 0, aspect = a,
      camera_position = (0, 0, CameraDistance), camera_target = earth_position,
      camera_roll = 0,
      camera_left = 0, camera_right = 0, camera_top = 0, camera_bottom = 0,
      root_rotation_x = 0, earth_rotation_y = 0, light_position = (0, 0, SunlightDistance),
      noonMarker_visible = True, midnightMarker_visible = True, pole_visible = True\<rparr>"

definition initial_C :: "real \<Rightarrow> scene" where
  "initial_C a =
     \<lparr>cameraDistance = 0, cameraTheta = 0, cameraPhi = 0,
      cameraTilt = 0, cameraDist = CameraDistance,
      sphericalCameraAngle = \<lparr>theta = PI / 2, phi = PI / 2\<rparr>,
      isDragging = False, dragStartX = 0, dragStartY = 0, aspect = a,
      camera_position = (0, 0, CameraDistance), camera_target = earth_position,
      camera_roll = 0,
      camera_left = 0, camera_right = 0, camera_top = 0, camera_bottom = 0,
      root_rotation_x = 0, earth_rotation_y = 0, light_position = (0, 0, SunlightDistance),
      noonMarker_visible = True, midnightMarker_visible = True, pole_visible = True\<rparr>"

section \<open>Properties of the rotation\<close>

lemma congruent_2pi_refl: "congruent_2pi a a"
  unfolding congruent_2pi_def by (rule exI [of _ 0]) simp

lemma minutes_of_day: "((m div 60) mod 24) * 60 + m mod 60 = (m mod 1440 :: int)"
proof -
  define q where "q = m div 60"
  define k where "k = (q mod 24) * 60 + m mod 60"
  have m: "m = 60 * q + m mod 60"
    unfolding q_def by simp
  have q: "q = 24 * (q div 24) + q mod 24"
    by simp
  have k0: "0 \<le> k" and k1: "k < 1440"
    unfolding k_def using pos_mod_bound [of 24 q] pos_mod_bound [of 60 m]
      pos_mod_sign [of 24 q] pos_mod_sign [of 60 m] by linarith+
  have "m = k + 1440 * (q div 24)"
    unfolding k_def using m q by linarith
  then have "m mod 1440 = k mod 1440"
    by (metis mod_mult_self2)
  also have "\<dots> = k"
    using k0 k1 by (rule mod_pos_pos_trivial)
  finally show ?thesis
    unfolding k_def q_def by simp
qed

lemma UTCMinutes_eq: "UTCMinutes t = (t div 60000) mod 1440"
proof -
  have "t div 3600000 = (t div 60000) div 60"
    using zdiv_zmult2_eq [of 60 t 60000] by simp
  then show ?thesis
    unfolding UTCMinutes_def getUTCHours_def getUTCMinutes_def HourFromTime_def MinFromTime_def
    using minutes_of_day [of "t div 60000"] by simp
qed

lemma UTCMinutes_range: "0 \<le> UTCMinutes t \<and> UTCMinutes t \<le> 1439"
  by (simp add: UTCMinutes_eq)

lemma UTCMinutes_period: "UTCMinutes (t + 1440 * 60000) = UTCMinutes t"
proof -
  have "(t + 1440 * 60000) div 60000 = t div 60000 + 1440"
    using div_mult_self1 [of 60000 t 1440] by (simp add: algebra_simps)
  then show ?thesis by (simp add: UTCMinutes_eq)
qed

lemma earth_rotation_y_update:
  "earth_rotation_y (updateEarthRotation now s) =
     real_of_int (UTCMinutes now) * (2 * pi / 1440) + (- pi) - pi / 2"
  by (simp add: updateEarthRotation_def RadPerMinute_def GMTOffset_def PI_def)

text \<open>
  C1. For every time \<open>now\<close>, \<open>updateEarthRotation\<close> (and \<open>updateRotationY\<close> of the older
  variant) sets the rotation of the Earth about its polar axis to
  \<open>utcMinutes * (2\<pi>/1440) + (-\<pi>) - \<pi>/2\<close> with \<open>utcMinutes = UTC hours * 60 + UTC minutes\<close>;
  when the UTC time is 00:00 the angle is congruent to \<open>-\<pi> - \<pi>/2\<close> modulo \<open>2\<pi>\<close>, and
  when it is 12:00 (UTC minute 720) it is congruent to \<open>-\<pi>/2\<close>.
\<close>

theorem C1_updateEarthRotation:
  "earth_rotation_y (updateEarthRotation now s) =
     real_of_int (getUTCHours now * 60 + getUTCMinutes now) * (2 * pi / 1440) + (- pi) - pi / 2
   \<and> earth_rotation_y (updateRotationY now s) =
     real_of_int (getUTCHours now * 60 + getUTCMinutes now) * (2 * pi / 1440) + (- pi) - pi / 2
   \<and> (getUTCHours now = 0 \<and> getUTCMinutes now = 0 \<longrightarrow>
        congruent_2pi (earth_rotation_y (updateEarthRotation now s)) (- pi - pi / 2))
   \<and> (getUTCHours now = 12 \<and> getUTCMinutes now = 0 \<longrightarrow>
        getUTCHours now * 60 + getUTCMinutes now = 720
        \<and> congruent_2pi (earth_rotation_y (updateEarthRotation now s)) (- (pi / 2)))"
proof (intro conjI impI)
  show "earth_rotation_y (updateEarthRotation now s) =
     real_of_int (getUTCHours now * 60 + getUTCMinutes now) * (2 * pi / 1440) + (- pi) - pi / 2"
    by (simp add: earth_rotation_y_update UTCMinutes_def)
  show "earth_rotation_y (updateRotationY now s) =
     real_of_int (getUTCHours now * 60 + getUTCMinutes now) * (2 * pi / 1440) + (- pi) - pi / 2"
    by (simp add: updateRotationY_def UTCMinutes_def RadPerMinute_def GMTOffset_def PI_def)
next
  assume "getUTCHours now = 0 \<and> getUTCMinutes now = 0"
  then have "earth_rotation_y (updateEarthRotation now s) = - pi - pi / 2"
    by (simp add: earth_rotation_y_update UTCMinutes_def)
  then show "congruent_2pi (earth_rotation_y (updateEarthRotation now s)) (- pi - pi / 2)"
    by (simp add: congruent_2pi_refl)
next
  assume noon: "getUTCHours now = 12 \<and> getUTCMinutes now = 0"
  then show "getUTCHours now * 60 + getUTCMinutes now = 720"
    by simp
  from noon have "earth_rotation_y (updateEarthRotation now s) = - (pi / 2)"
    by (simp add: earth_rotation_y_update UTCMinutes_def)
  then show "congruent_2pi (earth_rotation_y (updateEarthRotation now s)) (- (pi / 2))"
    by (simp add: congruent_2pi_refl)
qed

theorem C1_updateEarthRotation_witness:
  "getUTCHours 1704067200000 = 0 \<and> getUTCMinutes 1704067200000 = 0
   \<and> congruent_2pi (earth_rotation_y (updateEarthRotation 1704067200000 (initial 2))) (- pi - pi / 2)
   \<and> getUTCHours 1704110400000 = 12 \<and> getUTCMinutes 1704110400000 = 0
   \<and> congruent_2pi (earth_rotation_y (updateEarthRotation 1704110400000 (initial 2))) (- (pi / 2))"
proof -
  have m: "getUTCHours 1704067200000 = 0 \<and> getUTCMinutes 1704067200000 = 0"
    by (simp add: getUTCHours_def getUTCMinutes_def HourFromTime_def MinFromTime_def)
  have n: "getUTCHours 1704110400000 = 12 \<and> getUTCMinutes 1704110400000 = 0"
    by (simp add: getUTCHours_def getUTCMinutes_def HourFromTime_def MinFromTime_def)
  show ?thesis
    using m n C1_updateEarthRotation [of 1704067200000 "initial 2"]
      C1_updateEarthRotation [of 1704110400000 "initial 2"]
    by blast
qed

text \<open>
  C5. The rotation is periodic with period 1440 minutes: for every time \<open>t\<close>, the
  angle set at \<open>t + 1440 min\<close> is the angle set at \<open>t\<close>, hence congruent to it modulo \<open>2\<pi>\<close>.
\<close>

theorem C5_rotation_periodic:
  "earth_rotation_y (updateEarthRotation (t + 1440 * 60000) s) =
     earth_rotation_y (updateEarthRotation t s)
   \<and> congruent_2pi (earth_rotation_y (updateEarthRotation (t + 1440 * 60000) s))
        (earth_rotation_y (updateEarthRotation t s))"
proof -
  have "earth_rotation_y (updateEarthRotation (t + 1440 * 60000) s) =
     earth_rotation_y (updateEarthRotation t s)"
    by (simp only: earth_rotation_y_update UTCMinutes_period)
  then show ?thesis
    by (simp add: congruent_2pi_refl)
qed

section \<open>Properties of the camera\<close>

lemma clamp_phi_range: "0.001 \<le> max (min p pi) 0.001 \<and> max (min p pi) 0.001 \<le> pi"
  using pi_ge_two by (simp add: max_def min_def)

lemma moveSphericCamera_phi_range:
  "0.001 \<le> cameraPhi (moveSphericCamera dx dy s) \<and> cameraPhi (moveSphericCamera dx dy s) \<le> pi"
  using clamp_phi_range [of "cameraPhi s - dy * 0.01"]
  by (simp add: moveSphericCamera_def lookAt_def Let_def PI_def)

lemma moveSphericCamera_B_phi_range:
  "0.001 \<le> cameraPhi (moveSphericCamera_B dx dy s) \<and> cameraPhi (moveSphericCamera_B dx dy s) \<le> pi"
  using clamp_phi_range
  by (simp add: moveSphericCamera_B_def lookAt_def Let_def)

lemma handleMouseMove_C_phi_range:
  "isDragging s \<Longrightarrow>
   0.1 \<le> phi (sphericalCameraAngle (handleMouseMove_C e s))
   \<and> phi (sphericalCameraAngle (handleMouseMove_C e s)) \<le> pi - 0.1"
  using pi_ge_two by (simp add: handleMouseMove_C_def lookAt_def Let_def max_def min_def)

text \<open>
  C3. The claim: whatever the drags, the polar angle \<open>phi\<close> stays strictly inside its
  interval and is never exactly 0 and never exactly \<open>\<pi>\<close>. The lemmas above give what the
  clamps ensure: \<open>phi\<close> is in the closed interval from 0.001 to \<open>\<pi>\<close> in both variants of
  main.js, and from 0.1 to \<open>\<pi> - 0.1\<close> in the first variant, so it is never 0. The upper
  clamp of main.js is \<open>\<pi>\<close> itself: a drag of 200 pixels upwards from the initial state
  (\<open>moveSphericCamera(0, -200)\<close>) leaves \<open>phi\<close> exactly \<open>\<pi>\<close>, with the camera on the polar
  axis below the planet.
\<close>

theorem C3_phi_reaches_pi:
  "cameraPhi (handleMouseMove (0, 0) (handleMouseDown (0, 200) (initial 2))) = pi
   \<and> camera_position (handleMouseMove (0, 0) (handleMouseDown (0, 200) (initial 2)))
       = (0, - DefaultCameraDistance, 0)
   \<and> cameraPhi (moveSphericCamera_B 0 (- 200) (initial_B 2)) = pi"
  using pi_ge_two pi_less_4
  by (simp add: handleMouseMove_def handleMouseDown_def moveSphericCamera_def
      moveSphericCamera_B_def lookAt_def Let_def initial_def initial_B_def PI_def max_def min_def)

text \<open>
  C6. Round trip: \<open>resetCamera\<close> restores \<open>theta = phi = \<pi>/2\<close> (tilt 0 in the perspective
  variant) and the default distance, and puts the camera at \<open>(0, 0, defaultDistance)\<close>
  looking at the origin; converting the reset state to Cartesian coordinates (the
  conversion of \<open>moveSphericCamera\<close>, run with a zero drag) gives that same position and
  target.
\<close>

theorem C6_reset_roundtrip:
  "camera_position (resetCamera s) = (0, 0, DefaultCameraDistance)
   \<and> camera_target (resetCamera s) = (0, 0, 0)
   \<and> cameraTheta (resetCamera s) = pi / 2 \<and> cameraPhi (resetCamera s) = pi / 2
   \<and> cameraDistance (resetCamera s) = DefaultCameraDistance
   \<and> camera_position (moveSphericCamera 0 0 (resetCamera s)) = (0, 0, DefaultCameraDistance)
   \<and> camera_target (moveSphericCamera 0 0 (resetCamera s)) = (0, 0, 0)
   \<and> camera_position (resetCamera_B s) = (0, 0, CameraDistance)
   \<and> camera_target (resetCamera_B s) = (0, 0, 0)
   \<and> cameraTheta (resetCamera_B s) = pi / 2 \<and> cameraPhi (resetCamera_B s) = pi / 2
   \<and> cameraTilt (resetCamera_B s) = 0
   \<and> camera_position (moveSphericCamera_B 0 0 (resetCamera_B s)) = (0, 0, CameraDistance)
   \<and> camera_target (moveSphericCamera_B 0 0 (resetCamera_B s)) = (0, 0, 0)
   \<and> camera_roll (moveSphericCamera_B 0 0 (resetCamera_B s)) = 0"
  using pi_ge_two
  by (simp add: resetCamera_def resetCamera_B_def moveSphericCamera_def
      moveSphericCamera_B_def lookAt_def Let_def PI_def earth_position_def max_def min_def)

lemma handleResize_cameraDistance: "cameraDistance (handleResize s) = cameraDistance s"
  by (simp add: handleResize_def)

lemma moveSphericCamera_cameraDistance:
  "cameraDistance (moveSphericCamera dx dy s) = cameraDistance s"
  by (simp add: moveSphericCamera_def lookAt_def Let_def)

lemma tiltScene_cameraDistance: "cameraDistance (tiltScene dz s) = cameraDistance s"
  by (simp add: tiltScene_def Let_def)

lemma zoom_out_range:
  fixes d :: real
  assumes "1 \<le> d" "d \<le> 10"
  shows "1 \<le> min (d * 1.1) 10 \<and> min (d * 1.1) 10 \<le> 10"
  using assms by (simp add: min_def)

lemma zoom_in_range:
  fixes d :: real
  assumes "1 \<le> d" "d \<le> 10"
  shows "1 \<le> max (d * 0.9) 1 \<and> max (d * 0.9) 1 \<le> 10"
  using assms by (simp add: max_def)

lemma handleKeyDown_distance_range:
  assumes "1 \<le> cameraDistance s" "cameraDistance s \<le> 10"
  shows "1 \<le> cameraDistance (handleKeyDown key s) \<and> cameraDistance (handleKeyDown key s) \<le> 10"
  using assms zoom_out_range [OF assms] zoom_in_range [OF assms]
  by (simp add: handleKeyDown_def handleResize_cameraDistance moveSphericCamera_cameraDistance
      tiltScene_cameraDistance)

text \<open>
  C8. From a camera distance between 1 and 10, any finite sequence of key-down events
  (zoom in, zoom out, and every other key) leaves the camera distance between 1 and 10.
\<close>

theorem C8_zoom_clamp:
  "1 \<le> cameraDistance s \<Longrightarrow> cameraDistance s \<le> 10 \<Longrightarrow>
   1 \<le> cameraDistance (fold handleKeyDown keys s)
   \<and> cameraDistance (fold handleKeyDown keys s) \<le> 10"
proof (induction keys arbitrary: s)
  case Nil
  then show ?case by simp
next
  case (Cons key keys)
  have "1 \<le> cameraDistance (handleKeyDown key s) \<and> cameraDistance (handleKeyDown key s) \<le> 10"
    using Cons.prems by (rule handleKeyDown_distance_range)
  then show ?case
    using Cons.IH [of "handleKeyDown key s"] by simp
qed

theorem C8_zoom_clamp_witness:
  "1 \<le> cameraDistance (initial 2) \<and> cameraDistance (initial 2) \<le> 10
   \<and> 1 \<le> cameraDistance (fold handleKeyDown [''z'', ''z'', ''c'', ''Z'', ''C''] (initial 2))
   \<and> cameraDistance (fold handleKeyDown [''z'', ''z'', ''c'', ''Z'', ''C''] (initial 2)) \<le> 10"
proof -
  have a: "1 \<le> cameraDistance (initial 2)" and b: "cameraDistance (initial 2) \<le> 10"
    by (simp_all add: initial_def DefaultCameraDistance_def)
  show ?thesis
    using a b C8_zoom_clamp [OF a b, of "[''z'', ''z'', ''c'', ''Z'', ''C'']"] by simp
qed

lemma zoom_values:
  "cameraDistance (fold handleKeyDown (replicate 20 ''z'') (initial 2)) = 10"
  "cameraDistance (fold handleKeyDown (replicate 5 ''c'') (initial 2)) = 1"
  by (simp_all add: handleKeyDown_def handleResize_def initial_def DefaultCameraDistance_def
      numeral_eq_Suc)

text \<open>
  C7. In the perspective variant \<open>moveSphericCamera\<close> first rotates \<open>(deltaX, deltaY)\<close> by
  \<open>-tilt\<close> with the 2D rotation matrix and then applies the sensitivity 0.01; so a drag
  under tilt \<open>t\<close> is the same as rotating the delta by \<open>-t\<close>, applying the drag at tilt
  zero, and tilting the camera back by \<open>t\<close> with \<open>tiltCamera\<close>. The tilt of a state is
  between \<open>-\<pi>/2\<close> and \<open>\<pi>/2\<close>, where \<open>tiltCamera\<close> keeps it.
\<close>

theorem C7_tilt_composition:
  assumes "- (pi / 2) \<le> cameraTilt s" and "cameraTilt s \<le> pi / 2"
  shows "cameraTheta (moveSphericCamera_B dx dy s) =
           cameraTheta s + (dx * cos (- cameraTilt s) - dy * sin (- cameraTilt s)) * 0.01
    \<and> cameraPhi (moveSphericCamera_B dx dy s) =
           max (min (cameraPhi s - (dx * sin (- cameraTilt s) + dy * cos (- cameraTilt s)) * 0.01) pi) 0.001
    \<and> moveSphericCamera_B dx dy s =
         tiltCamera (cameraTilt s / 0.05)
           (moveSphericCamera_B (dx * cos (- cameraTilt s) - dy * sin (- cameraTilt s))
              (dx * sin (- cameraTilt s) + dy * cos (- cameraTilt s))
              (s\<lparr>cameraTilt := 0\<rparr>))"
  using assms
  by (simp add: moveSphericCamera_B_def tiltCamera_def lookAt_def Let_def max_def min_def)

theorem C7_tilt_composition_witness:
  "- (pi / 2) \<le> cameraTilt (tiltCamera 40 (initial_B 2))
   \<and> cameraTilt (tiltCamera 40 (initial_B 2)) \<le> pi / 2
   \<and> cameraTilt (tiltCamera 40 (initial_B 2)) = pi / 2
   \<and> cameraTheta (moveSphericCamera_B 10 0 (tiltCamera 40 (initial_B 2))) = pi / 2
   \<and> cameraPhi (moveSphericCamera_B 10 0 (tiltCamera 40 (initial_B 2))) = pi / 2 + 0.1
   \<and> moveSphericCamera_B 10 0 (tiltCamera 40 (initial_B 2)) =
        tiltCamera (pi / 2 / 0.05)
          (moveSphericCamera_B 0 (- 10) ((tiltCamera 40 (initial_B 2))\<lparr>cameraTilt := 0\<rparr>))"
proof -
  have t: "cameraTilt (tiltCamera 40 (initial_B 2)) = pi / 2"
    using pi_less_4 pi_gt_zero
    by (simp add: tiltCamera_def initial_B_def Let_def max_def min_def not_le)
  have a: "- (pi / 2) \<le> cameraTilt (tiltCamera 40 (initial_B 2))"
    and b: "cameraTilt (tiltCamera 40 (initial_B 2)) \<le> pi / 2"
    unfolding t using pi_ge_zero by linarith+
  have th: "cameraTheta (tiltCamera 40 (initial_B 2)) = pi / 2"
    and ph: "cameraPhi (tiltCamera 40 (initial_B 2)) = pi / 2"
    by (simp_all add: tiltCamera_def initial_B_def Let_def PI_def)
  have c: "max (min (pi / 2 + 0.1) pi) 0.001 = pi / 2 + 0.1"
    using pi_ge_two by (simp add: max_def min_def)
  note r = C7_tilt_composition [OF a b, of 10 0, unfolded t th ph]
  have r1: "cameraTheta (moveSphericCamera_B 10 0 (tiltCamera 40 (initial_B 2))) = pi / 2"
    using r [THEN conjunct1] by simp
  have r2: "cameraPhi (moveSphericCamera_B 10 0 (tiltCamera 40 (initial_B 2))) = pi / 2 + 0.1"
    using r [THEN conjunct2, THEN conjunct1] c by simp
  have r3: "moveSphericCamera_B 10 0 (tiltCamera 40 (initial_B 2)) =
        tiltCamera (pi / 2 / 0.05)
          (moveSphericCamera_B 0 (- 10) ((tiltCamera 40 (initial_B 2))\<lparr>cameraTilt := 0\<rparr>))"
    using r [THEN conjunct2, THEN conjunct2] by simp
  show ?thesis
    using a b t r1 r2 r3 by blast
qed

lemma sphere_norm:
  fixes d :: real
  shows "(d * sin p * cos t) * (d * sin p * cos t) + (d * cos p) * (d * cos p)
         + (d * sin p * sin t) * (d * sin p * sin t) = d * d"
proof -
  have t: "cos t * cos t + sin t * sin t = 1"
    by (rule sin_cos_squared_add3)
  have p: "cos p * cos p + sin p * sin p = 1"
    by (rule sin_cos_squared_add3)
  have "(d * sin p * cos t) * (d * sin p * cos t) + (d * cos p) * (d * cos p)
         + (d * sin p * sin t) * (d * sin p * sin t)
        = d * d * (sin p * sin p * (cos t * cos t + sin t * sin t) + cos p * cos p)"
    by (simp only: algebra_simps)
  also have "\<dots> = d * d * (cos p * cos p + sin p * sin p)"
    by (simp only: t mult_1_right add.commute)
  also have "\<dots> = d * d"
    by (simp only: p mult_1_right)
  finally show ?thesis .
qed

lemma distance_on_sphere:
  fixes d :: real
  assumes "0 \<le> d"
  shows "distanceToOrigin (d * sin p * cos t, d * cos p, d * sin p * sin t) = d"
  unfolding distanceToOrigin_def using assms sphere_norm [of d p t]
  by (simp add: real_sqrt_mult_self)


text \<open>
  C10. After \<open>moveSphericCamera\<close> and after \<open>resetCamera\<close>, in each variant, the Euclidean
  distance of the camera position from the origin is the camera distance: the camera
  stays on the sphere of that radius around the centre of the planet. In the first
  variant \<open>handleMouseMove\<close> keeps the camera on the sphere, whether or not a drag is on.
\<close>

theorem C10_camera_on_sphere:
  "(0 \<le> cameraDistance s \<longrightarrow>
      distanceToOrigin (camera_position (moveSphericCamera dx dy s))
        = cameraDistance (moveSphericCamera dx dy s))
   \<and> distanceToOrigin (camera_position (resetCamera s)) = cameraDistance (resetCamera s)
   \<and> distanceToOrigin (camera_position (moveSphericCamera_B dx dy s)) = CameraDistance
   \<and> distanceToOrigin (camera_position (resetCamera_B s)) = CameraDistance
   \<and> (0 \<le> cameraDist s \<and> distanceToOrigin (camera_position s) = cameraDist s \<longrightarrow>
      distanceToOrigin (camera_position (handleMouseMove_C e s))
        = cameraDist (handleMouseMove_C e s))"
proof (intro conjI impI)
  assume "0 \<le> cameraDistance s"
  then show "distanceToOrigin (camera_position (moveSphericCamera dx dy s))
        = cameraDistance (moveSphericCamera dx dy s)"
    by (simp add: moveSphericCamera_def lookAt_def Let_def distance_on_sphere)
next
  show "distanceToOrigin (camera_position (resetCamera s)) = cameraDistance (resetCamera s)"
    by (simp add: resetCamera_def lookAt_def Let_def distanceToOrigin_def
        DefaultCameraDistance_def)
next
  have "0 \<le> CameraDistance"
    by (simp add: CameraDistance_def)
  then show "distanceToOrigin (camera_position (moveSphericCamera_B dx dy s)) = CameraDistance"
    by (simp add: moveSphericCamera_B_def lookAt_def Let_def distance_on_sphere)
next
  show "distanceToOrigin (camera_position (resetCamera_B s)) = CameraDistance"
    by (simp add: resetCamera_B_def lookAt_def Let_def distanceToOrigin_def
        CameraDistance_def)
next
  assume "0 \<le> cameraDist s \<and> distanceToOrigin (camera_position s) = cameraDist s"
  then show "distanceToOrigin (camera_position (handleMouseMove_C e s))
        = cameraDist (handleMouseMove_C e s)"
    by (simp add: handleMouseMove_C_def lookAt_def Let_def distance_on_sphere)
qed

theorem C10_camera_on_sphere_witness:
  "0 \<le> cameraDistance (initial 2)
   \<and> distanceToOrigin (camera_position (moveSphericCamera 30 (- 40) (initial 2))) = 3 / 2
   \<and> 0 \<le> cameraDist (handleMouseDown (5, 5) (initial_C 2))
   \<and> distanceToOrigin (camera_position (handleMouseDown (5, 5) (initial_C 2)))
       = cameraDist (handleMouseDown (5, 5) (initial_C 2))
   \<and> distanceToOrigin (camera_position (handleMouseMove_C (35, 45) (handleMouseDown (5, 5) (initial_C 2))))
       = 22 / 10"
proof -
  have a: "0 \<le> cameraDistance (initial 2)"
    by (simp add: initial_def DefaultCameraDistance_def)
  have b: "0 \<le> cameraDist (handleMouseDown (5, 5) (initial_C 2))
     \<and> distanceToOrigin (camera_position (handleMouseDown (5, 5) (initial_C 2)))
       = cameraDist (handleMouseDown (5, 5) (initial_C 2))"
    by (simp add: initial_C_def handleMouseDown_def CameraDistance_def distanceToOrigin_def)
  have c: "cameraDistance (moveSphericCamera 30 (- 40) (initial 2)) = 3 / 2"
    by (simp add: moveSphericCamera_def lookAt_def Let_def initial_def DefaultCameraDistance_def)
  have d: "cameraDist (handleMouseMove_C (35, 45) (handleMouseDown (5, 5) (initial_C 2))) = 22 / 10"
    by (simp add: handleMouseMove_C_def handleMouseDown_def lookAt_def Let_def initial_C_def
        CameraDistance_def)
  show ?thesis
    using a b c d C10_camera_on_sphere [of "initial 2" 30 "- 40"]
      C10_camera_on_sphere [of "handleMouseDown (5, 5) (initial_C 2)" _ _ "(35, 45)"]
    by simp
qed

section \<open>Properties of the angle of the sunlight\<close>

lemma sinDecl_range: "\<bar>0.398 * cos a\<bar> \<le> (0.398 :: real)"
proof -
  have "\<bar>0.398 * cos a\<bar> = 0.398 * \<bar>cos a\<bar>"
    by (simp add: abs_mult)
  also have "\<dots> \<le> 0.398 * 1"
    by (intro mult_left_mono abs_cos_le_one) simp
  finally show ?thesis by simp
qed

lemma sunlightAngleSINE_range: "- 0.398 \<le> sunlightAngleSINE d \<and> sunlightAngleSINE d \<le> 0.398"
  using sinDecl_range [of "2 * pi * (real_of_int d - 173) / 365.242"]
  unfolding sunlightAngleSINE_def by linarith

lemma tan_arcsin_eq:
  fixes x :: real
  assumes "- 1 \<le> x" "x \<le> 1"
  shows "tan (arcsin x) = x / sqrt (1 - x * x)"
  using assms by (simp add: tan_def cos_arcsin power2_eq_square)

lemma sunlightAngleOfDay_SINE: "sunlightAngleOfDay d = arcsin (sunlightAngleSINE d)"
  by (simp add: sunlightAngleOfDay_def sunlightAngleSINE_def PI_def)

lemma tan_sunlightAngle: "tan (sunlightAngleOfDay d) = sunlightAngleTANGENT d"
proof -
  have "- 1 \<le> sunlightAngleSINE d" "sunlightAngleSINE d \<le> 1"
    using sunlightAngleSINE_range [of d] by auto
  then show ?thesis
    unfolding sunlightAngleOfDay_SINE sunlightAngleTANGENT_def by (rule tan_arcsin_eq)
qed

text \<open>
  C4. The two computations of the sunlight agree over the reals: for every day of the
  year, \<open>SunlightDistance * tan (asin sinDecl)\<close> is
  \<open>SunlightDistance * (sinDecl / sqrt (1 - sinDecl\<^sup>2))\<close> with
  \<open>sinDecl = 0.398 * cos (2\<pi> * (dayOfYear - 173) / 365.242)\<close>, so the three functions
  that place the light put it at the same position at any time.
\<close>

theorem C4_sun_elevation_agree:
  "SunlightDistance * tan (arcsin (0.398 * cos (2 * pi * (real_of_int d - 173) / 365.242)))
     = SunlightDistance * ((0.398 * cos (2 * pi * (real_of_int d - 173) / 365.242))
         / sqrt (1 - (0.398 * cos (2 * pi * (real_of_int d - 173) / 365.242))\<^sup>2))
   \<and> SunlightDistance * tan (sunlightAngleOfDay d) = SunlightDistance * sunlightAngleTANGENT d
   \<and> light_position (updateSunlightAngle tza now s) = light_position (updateSunlightAngle_B tza now s)
   \<and> light_position (updateSunlightAngle tza now s) = light_position (updateRotationX tza now s)"
proof (intro conjI)
  show "SunlightDistance * tan (arcsin (0.398 * cos (2 * pi * (real_of_int d - 173) / 365.242)))
     = SunlightDistance * ((0.398 * cos (2 * pi * (real_of_int d - 173) / 365.242))
         / sqrt (1 - (0.398 * cos (2 * pi * (real_of_int d - 173) / 365.242))\<^sup>2))"
    using tan_sunlightAngle [of d]
    by (simp add: sunlightAngleOfDay_def sunlightAngleTANGENT_def sunlightAngleSINE_def PI_def
        power2_eq_square)
  show "SunlightDistance * tan (sunlightAngleOfDay d) = SunlightDistance * sunlightAngleTANGENT d"
    by (simp add: tan_sunlightAngle)
  show "light_position (updateSunlightAngle tza now s) = light_position (updateSunlightAngle_B tza now s)"
    by (simp add: updateSunlightAngle_def updateSunlightAngle_B_def getSunlightAngle_def
        tan_sunlightAngle)
  show "light_position (updateSunlightAngle tza now s) = light_position (updateRotationX tza now s)"
    by (simp add: updateSunlightAngle_def updateRotationX_def getSunlightAngle_def
        tan_sunlightAngle)
qed

lemma sin_poly6: "(\<Sum>m<6. sin_coeff m * x ^ m) = x - x ^ 3 / 6 + x ^ 5 / 120"
  by (simp add: eval_nat_numeral lessThan_Suc sin_coeff_Suc cos_coeff_Suc)

lemma sin_4093: "sin (0.4093 :: real) < 0.398"
proof -
  have "\<bar>sin (0.4093 :: real) - (\<Sum>m<6. sin_coeff m * 0.4093 ^ m)\<bar>
          \<le> inverse (fact 6) * \<bar>0.4093\<bar> ^ 6"
    by (rule Maclaurin_sin_bound)
  then have "sin (0.4093 :: real) \<le> (0.4093 - 0.4093 ^ 3 / 6 + 0.4093 ^ 5 / 120)
      + inverse (fact 6) * \<bar>0.4093\<bar> ^ 6"
    unfolding sin_poly6 by linarith
  also have "\<dots> < 0.398"
    by (simp add: fact_numeral power_divide)
  finally show ?thesis .
qed

lemma sin_4094: "0.398 < sin (0.4094 :: real)"
proof -
  have "\<bar>sin (0.4094 :: real) - (\<Sum>m<6. sin_coeff m * 0.4094 ^ m)\<bar>
          \<le> inverse (fact 6) * \<bar>0.4094\<bar> ^ 6"
    by (rule Maclaurin_sin_bound)
  then have "(0.4094 - 0.4094 ^ 3 / 6 + 0.4094 ^ 5 / 120)
      - inverse (fact 6) * \<bar>0.4094\<bar> ^ 6 \<le> sin (0.4094 :: real)"
    unfolding sin_poly6 by linarith
  moreover have "(0.398 :: real) < (0.4094 - 0.4094 ^ 3 / 6 + 0.4094 ^ 5 / 120)
      - inverse (fact 6) * \<bar>0.4094\<bar> ^ 6"
    by (simp add: fact_numeral power_divide)
  ultimately show ?thesis by linarith
qed

lemma arcsin_0398_bounds: "0.4093 < arcsin 0.398 \<and> arcsin 0.398 < 0.4094"
proof
  have r1: "- (pi / 2) \<le> 0.4093" "0.4093 \<le> pi / 2"
    using pi_ge_two by auto
  have r2: "- (pi / 2) \<le> 0.4094" "0.4094 \<le> pi / 2"
    using pi_ge_two by auto
  have "arcsin (sin 0.4093) < arcsin 0.398"
    using sin_4093 by (intro arcsin_less_arcsin) simp_all
  then show "0.4093 < arcsin 0.398"
    using arcsin_sin [OF r1] by simp
  have "arcsin 0.398 < arcsin (sin 0.4094)"
    using sin_4094 by (intro arcsin_less_arcsin) simp_all
  then show "arcsin 0.398 < 0.4094"
    using arcsin_sin [OF r2] by simp
qed

lemma sunlightAngleOfDay_173: "sunlightAngleOfDay 173 = arcsin 0.398"
  by (simp add: sunlightAngleOfDay_def)

lemma sunlightAngleOfDay_max: "sunlightAngleOfDay d \<le> arcsin 0.398"
  unfolding sunlightAngleOfDay_SINE
  using sunlightAngleSINE_range [of d] by (intro arcsin_le_arcsin) simp_all

lemma sunlightAngleOfDay_symmetric:
  "sunlightAngleOfDay (173 + k) = sunlightAngleOfDay (173 - k)"
proof -
  have "cos (2 * PI * (real_of_int (173 - k) - 173) / 365.242)
        = cos (- (2 * PI * (real_of_int (173 + k) - 173) / 365.242))"
    by simp
  then show ?thesis
    unfolding sunlightAngleOfDay_def by (simp only: cos_minus)
qed

section \<open>Properties of the calendar\<close>

lemma div_step:
  fixes x n :: int
  assumes n: "0 < n"
  shows "(x + 1) div n = x div n + (if n dvd x + 1 then 1 else 0)"
proof -
  define q where "q = x div n"
  define r where "r = x mod n"
  have x: "x = n * q + r"
    unfolding q_def r_def by simp
  have r0: "0 \<le> r" and r1: "r < n"
    unfolding r_def using n by simp_all
  show ?thesis
  proof (cases "r = n - 1")
    case True
    have e: "x + 1 = n * (q + 1) + 0"
      using x True by (simp add: algebra_simps)
    have "(x + 1) div n = q + 1"
      using e _ n by (rule int_div_pos_eq) simp
    moreover have "n dvd x + 1"
      using e by simp
    ultimately show ?thesis
      by (simp add: q_def)
  next
    case False
    have e: "x + 1 = n * q + (r + 1)"
      using x by simp
    have b0: "0 \<le> r + 1" and b1: "r + 1 < n"
      using r0 r1 False by linarith+
    have "(x + 1) div n = q"
      using e b0 b1 by (rule int_div_pos_eq)
    moreover have "(x + 1) mod n = r + 1"
      using e b0 b1 by (rule int_mod_pos_eq)
    then have "\<not> n dvd x + 1"
      using r0 by (simp add: dvd_eq_mod_eq_0)
    ultimately show ?thesis
      by (simp add: q_def)
  qed
qed

lemma leap_dvd:
  fixes y :: int
  shows "400 dvd y - 1600 \<Longrightarrow> 100 dvd y - 1900" and "100 dvd y - 1900 \<Longrightarrow> 4 dvd y - 1968"
proof -
  assume "400 dvd y - 1600"
  then obtain k where "y - 1600 = 400 * k" ..
  then have "y - 1900 = 100 * (4 * k - 3)" by simp
  then show "100 dvd y - 1900" by (rule dvdI)
next
  assume "100 dvd y - 1900"
  then obtain k where "y - 1900 = 100 * k" ..
  then have "y - 1968 = 4 * (25 * k - 17)" by simp
  then show "4 dvd y - 1968" by (rule dvdI)
qed

lemma DayFromYear_step:
  "DayFromYear (y + 1) = DayFromYear y + 365 \<or> DayFromYear (y + 1) = DayFromYear y + 366"
proof -
  have a: "(y + 1 - 1969) div 4 = (y - 1969) div 4 + (if 4 dvd y - 1968 then 1 else 0)"
    using div_step [of 4 "y - 1969"] by (simp add: algebra_simps)
  have b: "(y + 1 - 1901) div 100 = (y - 1901) div 100 + (if 100 dvd y - 1900 then 1 else 0)"
    using div_step [of 100 "y - 1901"] by (simp add: algebra_simps)
  have c: "(y + 1 - 1601) div 400 = (y - 1601) div 400 + (if 400 dvd y - 1600 then 1 else 0)"
    using div_step [of 400 "y - 1601"] by (simp add: algebra_simps)
  show ?thesis
    unfolding DayFromYear_def a b c
    using leap_dvd [of y] by (auto split: if_splits)
qed

lemma DayFromYear_less: "DayFromYear y < DayFromYear (y + 1)"
  using DayFromYear_step [of y] by linarith



lemma estimate_low_arith:
  fixes u d m q4 r4 q100 r100 q400 r400 :: int
  assumes "400 * d = 146097 * u + m" "0 \<le> m"
    and "u = 4 * q4 + r4" "0 \<le> r4"
    and "u + 68 = 100 * q100 + r100" "r100 < 100"
    and "u + 368 = 400 * q400 + r400" "0 \<le> r400"
  shows "365 * (u - 1) + q4 - q100 + q400 \<le> d"
proof -
  have a: "400 * q4 \<le> 100 * u"
    using assms(3,4) by linarith
  have b: "4 * u - 124 \<le> 400 * q100"
    using assms(5,6) by linarith
  have c: "400 * q400 \<le> u + 368"
    using assms(7,8) by linarith
  have "400 * (365 * (u - 1) + q4 - q100 + q400) \<le> 400 * d"
    using a b c assms(1,2) by (simp add: algebra_simps)
  then show ?thesis by simp
qed

lemma estimate_high_arith:
  fixes u d m q4 r4 q100 r100 q400 r400 :: int
  assumes "400 * d = 146097 * u + m" "m < 146097"
    and "u + 3 = 4 * q4 + r4" "r4 < 4"
    and "u + 71 = 100 * q100 + r100" "0 \<le> r100"
    and "u + 371 = 400 * q400 + r400" "r400 < 400"
  shows "d < 365 * (u + 2) + q4 - q100 + q400"
proof -
  have a: "100 * u \<le> 400 * q4"
    using assms(3,4) by linarith
  have b: "400 * q100 \<le> 4 * u + 284"
    using assms(5,6) by linarith
  have c: "u - 28 \<le> 400 * q400"
    using assms(7,8) by linarith
  have "400 * d < 400 * (365 * (u + 2) + q4 - q100 + q400)"
    using a b c assms(1,2) by (simp add: algebra_simps)
  then show ?thesis by simp
qed

lemma year_estimate:
  fixes d :: int
  defines "u \<equiv> (400 * d) div 146097"
  shows "DayFromYear (1970 + u - 1) \<le> d" and "d < DayFromYear (1970 + u + 2)"
proof -
  have u: "400 * d = 146097 * u + (400 * d) mod 146097"
    unfolding u_def by simp
  have "365 * (u - 1) + u div 4 - (u + 68) div 100 + (u + 368) div 400 \<le> d"
    by (rule estimate_low_arith [OF u, where ?r4.0 = "u mod 4" and ?r100.0 = "(u + 68) mod 100"
          and ?r400.0 = "(u + 368) mod 400"]) simp_all
  moreover have "DayFromYear (1970 + u - 1)
        = 365 * (u - 1) + u div 4 - (u + 68) div 100 + (u + 368) div 400"
    by (simp add: DayFromYear_def algebra_simps)
  ultimately show "DayFromYear (1970 + u - 1) \<le> d"
    by simp
  have "d < 365 * (u + 2) + (u + 3) div 4 - (u + 71) div 100 + (u + 371) div 400"
    by (rule estimate_high_arith [OF u, where ?r4.0 = "(u + 3) mod 4"
          and ?r100.0 = "(u + 71) mod 100" and ?r400.0 = "(u + 371) mod 400"]) simp_all
  moreover have "DayFromYear (1970 + u + 2)
        = 365 * (u + 2) + (u + 3) div 4 - (u + 71) div 100 + (u + 371) div 400"
    by (simp add: DayFromYear_def algebra_simps)
  ultimately show "d < DayFromYear (1970 + u + 2)"
    by simp
qed

lemma YearFromTime_bounds:
  "DayFromYear (YearFromTime t) \<le> Day t \<and> Day t < DayFromYear (YearFromTime t + 1)"
proof -
  define y where "y = 1970 + (400 * Day t) div 146097"
  have lo: "DayFromYear (y - 1) \<le> Day t" and hi: "Day t < DayFromYear (y + 2)"
    using year_estimate [of "Day t"] by (simp_all add: y_def algebra_simps)
  have Y: "YearFromTime t = (if Day t < DayFromYear y then y - 1
         else if DayFromYear (y + 1) \<le> Day t then y + 1 else y)"
    by (simp add: YearFromTime_def Let_def y_def)
  show ?thesis
  proof (cases "Day t < DayFromYear y")
    case True
    then show ?thesis using lo Y by simp
  next
    case False
    show ?thesis
    proof (cases "DayFromYear (y + 1) \<le> Day t")
      case True
      have e: "y + 1 + 1 = y + 2" by simp
      have "YearFromTime t = y + 1"
        using Y True False by simp
      then show ?thesis
        unfolding e using True hi by (simp only: e) 
    next
      case False
      then show ?thesis using \<open>\<not> Day t < DayFromYear y\<close> Y by simp
    qed
  qed
qed

lemma DayFromYear_mono_nat: "DayFromYear y \<le> DayFromYear (y + int n)"
proof (induction n)
  case 0
  then show ?case by simp
next
  case (Suc n)
  have "DayFromYear (y + int n) < DayFromYear (y + int n + 1)"
    by (rule DayFromYear_less)
  then show ?case using Suc by (simp add: algebra_simps)
qed

lemma DayFromYear_mono: "y \<le> z \<Longrightarrow> DayFromYear y \<le> DayFromYear z"
  using DayFromYear_mono_nat [of y "nat (z - y)"] by simp

lemma TimeFromYear_le_iff: "TimeFromYear y \<le> t \<longleftrightarrow> DayFromYear y \<le> Day t"
proof
  assume "TimeFromYear y \<le> t"
  then have "(msPerDay * DayFromYear y) div msPerDay \<le> t div msPerDay"
    unfolding TimeFromYear_def by (intro zdiv_mono1) (simp_all add: msPerDay_def)
  then show "DayFromYear y \<le> Day t"
    by (simp add: Day_def msPerDay_def)
next
  assume "DayFromYear y \<le> Day t"
  then have "msPerDay * DayFromYear y \<le> msPerDay * Day t"
    by (simp add: msPerDay_def)
  also have "\<dots> \<le> t"
    unfolding Day_def msPerDay_def by simp
  finally show "TimeFromYear y \<le> t"
    by (simp add: TimeFromYear_def)
qed

lemma YearFromTime_largest: "TimeFromYear y \<le> t \<longleftrightarrow> y \<le> YearFromTime t"
proof
  assume "y \<le> YearFromTime t"
  then have "DayFromYear y \<le> DayFromYear (YearFromTime t)"
    by (rule DayFromYear_mono)
  then show "TimeFromYear y \<le> t"
    using YearFromTime_bounds [of t] by (simp add: TimeFromYear_le_iff)
next
  assume a: "TimeFromYear y \<le> t"
  show "y \<le> YearFromTime t"
  proof (rule ccontr)
    assume "\<not> y \<le> YearFromTime t"
    then have "YearFromTime t + 1 \<le> y" by simp
    then have "DayFromYear (YearFromTime t + 1) \<le> DayFromYear y"
      by (rule DayFromYear_mono)
    then show False
      using a YearFromTime_bounds [of t] by (simp add: TimeFromYear_le_iff)
  qed
qed

section \<open>The day of the year\<close>

lemma fixedOffset_apply: "fixedOffset off t isUTC = off"
  by (simp add: fixedOffset_def)


lemma dayOfYear_div: "dayOfYear tza time = (time - startOfYear tza time) div 86400000"
  unfolding dayOfYear_def by (simp only: floor_divide_of_int_eq) simp

lemma spec_dayOfYear_div:
  "spec_dayOfYear tza time = (time - spec_startOfYear tza time) div 86400000"
  unfolding spec_dayOfYear_def by (simp only: floor_divide_of_int_eq)

lemma div_shift_days:
  fixes a k :: int
  shows "(a + 86400000 * k) div 86400000 = a div 86400000 + k"
  by simp

lemma startOfYear_eq:
  assumes "getFullYear tza time < 0 \<or> 99 < getFullYear tza time"
  shows "startOfYear tza time = UTC tza (TimeFromYear (getFullYear tza time) - 86400000)"
proof -
  have m: "MakeFullYear (getFullYear tza time) = getFullYear tza time"
    using assms by (auto simp add: MakeFullYear_def)
  have "msPerDay * (DayFromYear (getFullYear tza time) + 0 - 1)
        = TimeFromYear (getFullYear tza time) - 86400000"
    by (simp add: TimeFromYear_def msPerDay_def algebra_simps)
  then show ?thesis
    by (simp only: startOfYear_def newDate_def m)
qed

text \<open>The day of the year in any zone: the number of the local day within the local
  year, counted from 1, of the local time moved back by the difference between the
  offset in force at the date and the offset in force at the start of the year.\<close>

lemma dayOfYear_shift:
  assumes "getFullYear tza time < 0 \<or> 99 < getFullYear tza time"
  shows "dayOfYear tza time =
           Day (LocalTime tza time
                - (tza time True - tza (TimeFromYear (getFullYear tza time) - 86400000) False))
           - DayFromYear (getFullYear tza time) + 1"
proof -
  define off0 where "off0 = tza (TimeFromYear (getFullYear tza time) - 86400000) False"
  have "time - startOfYear tza time
        = (LocalTime tza time - (tza time True - off0))
          + 86400000 * (1 - DayFromYear (getFullYear tza time))"
    unfolding startOfYear_eq [OF assms] off0_def
    by (simp add: UTC_def LocalTime_def TimeFromYear_def msPerDay_def algebra_simps)
  then show ?thesis
    unfolding dayOfYear_div off0_def [symmetric]
    by (simp only: div_shift_days) (simp add: Day_def msPerDay_def)
qed

lemma dayOfYear_eq:
  assumes "getFullYear tza time < 0 \<or> 99 < getFullYear tza time"
    and "tza time True = tza (TimeFromYear (getFullYear tza time) - 86400000) False"
  shows "dayOfYear tza time = Day (LocalTime tza time) - DayFromYear (getFullYear tza time) + 1"
  using dayOfYear_shift [OF assms(1)] assms(2) by simp

lemma spec_dayOfYear_fixedOffset:
  "spec_dayOfYear (fixedOffset off) time
     = Day (LocalTime (fixedOffset off) time) - DayFromYear (getFullYear (fixedOffset off) time)"
proof -
  have "time - spec_startOfYear (fixedOffset off) time
        = LocalTime (fixedOffset off) time
          + 86400000 * (- DayFromYear (getFullYear (fixedOffset off) time))"
    by (simp add: spec_startOfYear_def UTC_def LocalTime_def TimeFromYear_def msPerDay_def
        fixedOffset_apply)
  then show ?thesis
    unfolding spec_dayOfYear_div by (simp only: div_shift_days) (simp add: Day_def msPerDay_def)
qed

text \<open>With one offset at all times the code is one day ahead of the formula that starts
  the year at midnight of the first of January.\<close>

lemma dayOfYear_fixedOffset:
  assumes "getFullYear (fixedOffset off) time < 0 \<or> 99 < getFullYear (fixedOffset off) time"
  shows "dayOfYear (fixedOffset off) time = spec_dayOfYear (fixedOffset off) time + 1"
proof -
  have "fixedOffset off time True
        = fixedOffset off (TimeFromYear (getFullYear (fixedOffset off) time) - 86400000) False"
    by (simp add: fixedOffset_apply)
  with assms have "dayOfYear (fixedOffset off) time
      = Day (LocalTime (fixedOffset off) time)
        - DayFromYear (getFullYear (fixedOffset off) time) + 1"
    by (rule dayOfYear_eq)
  then show ?thesis
    by (simp add: spec_dayOfYear_fixedOffset)
qed


text \<open>For a local year from 0 to 99 the constructor reads the year as 1900 + year, and
  the day of the year leaves the range: on the first of January of the year 50 it is
  negative.\<close>

lemma dayOfYear_two_digit_year: "dayOfYear (fixedOffset 0) (TimeFromYear 50) = - 693959"
proof -
  have t: "TimeFromYear 50 = - 60589296000000"
    by (simp add: TimeFromYear_def DayFromYear_def msPerDay_def)
  have y: "getFullYear (fixedOffset 0) (- 60589296000000) = 50"
    by (simp add: getFullYear_def LocalTime_def YearFromTime_def Day_def msPerDay_def
        DayFromYear_def Let_def fixedOffset_apply)
  have c: "startOfYear (fixedOffset 0) (- 60589296000000) = - 631238400000"
    by (simp add: startOfYear_def newDate_def y MakeFullYear_def UTC_def DayFromYear_def
        msPerDay_def fixedOffset_apply)
  show ?thesis
    unfolding t by (simp add: dayOfYear_div c)
qed



text \<open>
  C9. The sunlight angle is at most \<open>asin 0.398\<close>, and has that value on day 173 of the
  year; \<open>asin 0.398\<close> lies between 0.4093 and 0.4094, within 0.0005 of 0.4089; and the
  angle is symmetric around day 173: the days \<open>173 + k\<close> and \<open>173 - k\<close> have the same angle.
\<close>

theorem C9_sun_elevation_maximum:
  "getSunlightAngle tza time \<le> arcsin 0.398
   \<and> (dayOfYear tza time = 173 \<longrightarrow> getSunlightAngle tza time = arcsin 0.398)
   \<and> sunlightAngleOfDay d \<le> sunlightAngleOfDay 173
   \<and> sunlightAngleOfDay 173 = arcsin 0.398
   \<and> \<bar>arcsin 0.398 - 0.4089\<bar> < 0.0005
   \<and> 0.4093 < arcsin 0.398 \<and> arcsin 0.398 < 0.4094
   \<and> sunlightAngleOfDay (173 + k) = sunlightAngleOfDay (173 - k)"
proof -
  have a: "\<bar>arcsin 0.398 - 0.4089\<bar> < (0.0005 :: real)"
    using arcsin_0398_bounds by (simp add: abs_less_iff)
  show ?thesis
    using a arcsin_0398_bounds sunlightAngleOfDay_max [of d]
      sunlightAngleOfDay_max [of "dayOfYear tza time"]
      sunlightAngleOfDay_symmetric [of k]
    by (simp add: getSunlightAngle_def sunlightAngleOfDay_173)
qed

theorem C9_sun_elevation_maximum_witness:
  "dayOfYear (fixedOffset 0) 1718971200000 = 173
   \<and> getSunlightAngle (fixedOffset 0) 1718971200000 = arcsin 0.398"
proof -
  have y: "getFullYear (fixedOffset 0) 1718971200000 = 2024"
    by (simp add: getFullYear_def LocalTime_def YearFromTime_def Day_def msPerDay_def
        DayFromYear_def Let_def fixedOffset_apply)
  have c: "startOfYear (fixedOffset 0) 1718971200000 = 1703980800000"
    by (simp add: startOfYear_def newDate_def y MakeFullYear_def UTC_def DayFromYear_def
        msPerDay_def fixedOffset_apply)
  have d: "dayOfYear (fixedOffset 0) 1718971200000 = 173"
    by (simp add: dayOfYear_div c)
  show ?thesis
    using d C9_sun_elevation_maximum [of "fixedOffset 0" 1718971200000] by blast
qed

end
